theory Spec2Isabelle
  imports Main
begin

section \<open>Python values, exceptions and dictionaries\<close>

text \<open>
  The client of \<^verbatim>\<open>circle.py\<close> is Python 2 code.  The values it handles are the
  ones \<^verbatim>\<open>r.json()\<close> decodes (null, booleans, integers, strings, lists, objects) and the
  strings, lists and ordered dictionaries it builds from them.  One datatype covers both.
  A dictionary is an association list with distinct keys.  For a decoded JSON object, which
  the client only reads, the list gives the entries in the order in which Python iterates
  them; for an \<^verbatim>\<open>OrderedDict\<close> that is the order of insertion.  A plain \<^verbatim>\<open>dict\<close> that the
  client builds itself is listed in the order of insertion too, but Python 2 iterates it in
  the order of its hash table: that order is asked of the runtime (\<open>dict_items\<close> below)
  wherever the client iterates such a dictionary.  JSON floats are not modelled.  A
  \<^typ>\<open>char\<close> is a code point below 256; the ones from 128 on are the non-ASCII characters.
\<close>

datatype pyval =
    PNone
  | PBool bool
  | PInt int
  | PStr string
  | PList "pyval list"
  | PDict "(string \<times> pyval) list"

datatype py_error =
    Exception string
  | NotImplementedError string
  | KeyError string
  | TypeError
  | ValueError
  | AttributeError
  | UnicodeEncodeError
  | UnicodeDecodeError

text \<open>Sequencing of computations that may raise: the first exception wins.\<close>

definition bind_err :: "py_error + 'a \<Rightarrow> ('a \<Rightarrow> py_error + 'b) \<Rightarrow> py_error + 'b" where
  "bind_err m f = (case m of Inl e \<Rightarrow> Inl e | Inr x \<Rightarrow> f x)"

fun map_err :: "('a \<Rightarrow> py_error + 'b) \<Rightarrow> 'a list \<Rightarrow> py_error + 'b list" where
  "map_err f [] = Inr []"
| "map_err f (x # xs) =
     (case f x of
        Inl e \<Rightarrow> Inl e
      | Inr y \<Rightarrow> (case map_err f xs of Inl e \<Rightarrow> Inl e | Inr ys \<Rightarrow> Inr (y # ys)))"

text \<open>\<^verbatim>\<open>d[k] = v\<close> on the list of entries: the value of an existing key is replaced, a new
  entry is added after the others.\<close>

fun dict_set :: "(string \<times> 'v) list \<Rightarrow> string \<Rightarrow> 'v \<Rightarrow> (string \<times> 'v) list" where
  "dict_set [] k v = [(k, v)]"
| "dict_set ((k', v') # d) k v = (if k' = k then (k, v) # d else (k', v') # dict_set d k v)"

text \<open>\<^verbatim>\<open>d.update(other)\<close>: every entry of \<^verbatim>\<open>other\<close> is stored into \<^verbatim>\<open>d\<close> in turn.\<close>

fun dict_update :: "(string \<times> 'v) list \<Rightarrow> (string \<times> 'v) list \<Rightarrow> (string \<times> 'v) list" where
  "dict_update d [] = d"
| "dict_update d ((k, v) # other) = dict_update (dict_set d k v) other"

definition is_ascii :: "string \<Rightarrow> bool" where
  "is_ascii s = list_all (\<lambda>c. (of_char c :: nat) < 128) s"

text \<open>Python's truth value of a decoded JSON value.\<close>

fun truthy :: "pyval \<Rightarrow> bool" where
  "truthy PNone = False"
| "truthy (PBool b) = b"
| "truthy (PInt i) = (i \<noteq> 0)"
| "truthy (PStr s) = (s \<noteq> [])"
| "truthy (PList xs) = (xs \<noteq> [])"
| "truthy (PDict kvs) = (kvs \<noteq> [])"

text \<open>\<^verbatim>\<open>v[key]\<close> with a string key: only a dictionary can be subscripted so.\<close>

fun getitem :: "pyval \<Rightarrow> string \<Rightarrow> py_error + pyval" where
  "getitem (PDict kvs) k = (case map_of kvs k of None \<Rightarrow> Inl (KeyError k) | Some v \<Rightarrow> Inr v)"
| "getitem v k = Inl TypeError"

text \<open>\<^verbatim>\<open>for x in v\<close>: a list gives its elements, a dictionary its keys, a string its
  characters; nothing else is iterable.\<close>

fun iterate :: "pyval \<Rightarrow> py_error + pyval list" where
  "iterate (PList xs) = Inr xs"
| "iterate (PDict kvs) = Inr (map (\<lambda>kv. PStr (fst kv)) kvs)"
| "iterate (PStr s) = Inr (map (\<lambda>c. PStr [c]) s)"
| "iterate v = Inl TypeError"

section \<open>Numbers and characters as text\<close>

definition digit_char :: "nat \<Rightarrow> char" where
  "digit_char n = ''0123456789'' ! n"

fun string_of_nat :: "nat \<Rightarrow> string" where
  "string_of_nat n =
     (if n < 10 then [digit_char n] else string_of_nat (n div 10) @ [digit_char (n mod 10)])"

definition string_of_int :: "int \<Rightarrow> string" where
  "string_of_int i = (if i < 0 then CHR ''-'' # string_of_nat (nat (- i)) else string_of_nat (nat i))"

definition hex_upper :: "nat \<Rightarrow> char" where
  "hex_upper n = ''0123456789ABCDEF'' ! n"

definition hex_lower :: "nat \<Rightarrow> char" where
  "hex_lower n = ''0123456789abcdef'' ! n"

text \<open>\<^verbatim>\<open>sep.join(parts)\<close> on strings.\<close>

fun join :: "string \<Rightarrow> string list \<Rightarrow> string" where
  "join sep [] = []"
| "join sep [x] = x"
| "join sep (x # y # ys) = x @ sep @ join sep (y # ys)"

section \<open>The Python runtime\<close>

text \<open>
  What the client asks of the Python runtime and of \<^verbatim>\<open>dateutil\<close> and is not written in the
  repository:
  \<^item> \<^verbatim>\<open>dp.parse(v).astimezone(tz.tzlocal()).strftime('%a, %b %d, %Y %I:%M%p %Z')\<close>, which
    depends on the local time zone and may raise;
  \<^item> \<^verbatim>\<open>str\<close> of a list or dictionary;
  \<^item> the order in which a plain \<^verbatim>\<open>dict\<close> of strings, given by its entries in the order of
    insertion, is iterated (in CPython 2 the order of the slots of its hash table).
\<close>

record runtime =
  local_strftime :: "pyval \<Rightarrow> py_error + string"
  container_str :: "pyval \<Rightarrow> string"
  dict_items :: "(string \<times> string) list \<Rightarrow> (string \<times> string) list"


section \<open>Building the request URL\<close>

text \<open>
  \<^verbatim>\<open>urllib.quote_plus\<close>: letters, digits and \<^verbatim>\<open>_.-\<close> stay, a space becomes \<^verbatim>\<open>+\<close>, every
  other byte becomes \<^verbatim>\<open>%XX\<close> in upper-case hexadecimal.
\<close>

definition always_safe :: "char \<Rightarrow> bool" where
  "always_safe c =
     (c \<in> set ''ABCDEFGHIJKLMNOPQRSTUVWXYZabcdefghijklmnopqrstuvwxyz0123456789_.-'')"

definition quote_char :: "char \<Rightarrow> string" where
  "quote_char c =
     (if always_safe c then [c]
      else if c = CHR '' '' then ''+''
      else [CHR ''%'', hex_upper ((of_char c :: nat) div 16), hex_upper ((of_char c :: nat) mod 16)])"

definition quote_plus :: "string \<Rightarrow> string" where
  "quote_plus s = concat (map quote_char s)"

text \<open>\<^verbatim>\<open>urllib.urlencode\<close> of the items of a dictionary of strings, in the order given.\<close>

definition urlencode :: "(string \<times> string) list \<Rightarrow> string" where
  "urlencode query = join ''&'' (map (\<lambda>kv. quote_plus (fst kv) @ ''='' @ quote_plus (snd kv)) query)"

text \<open>The six components of \<^verbatim>\<open>urlparse.ParseResult\<close>.\<close>

record ParseResult =
  scheme :: string
  netloc :: string
  path :: string
  params :: string
  query :: string
  fragment :: string

text \<open>\<^verbatim>\<open>urlparse.urlunparse\<close>, with the schemes that use a network location.\<close>

definition uses_netloc :: "string list" where
  "uses_netloc =
     [''ftp'', ''http'', ''gopher'', ''nntp'', ''telnet'', ''imap'', ''wais'', ''file'', ''mms'',
      ''https'', ''shttp'', ''snews'', ''prospero'', ''rtsp'', ''rtspu'', ''rsync'', [],
      ''svn'', ''svn+ssh'', ''sftp'', ''nfs'', ''git'', ''git+ssh'']"

definition urlunparse :: "ParseResult \<Rightarrow> string" where
  "urlunparse p =
     (let url = (if params p \<noteq> [] then path p @ '';'' @ params p else path p);
          url = (if netloc p \<noteq> [] \<or> (scheme p \<noteq> [] \<and> scheme p \<in> set uses_netloc \<and> take 2 url \<noteq> ''//'')
                 then ''//'' @ netloc p @ (if url \<noteq> [] \<and> take 1 url \<noteq> ''/'' then ''/'' @ url else url)
                 else url);
          url = (if scheme p \<noteq> [] then scheme p @ '':'' @ url else url);
          url = (if query p \<noteq> [] then url @ ''?'' @ query p else url);
          url = (if fragment p \<noteq> [] then url @ ''#'' @ fragment p else url)
      in url)"

text \<open>The client object: the token given to \<^verbatim>\<open>__init__\<close> and the fixed base URL.\<close>

record CircleAPI =
  token :: string
  base_url :: string

definition init :: "string \<Rightarrow> CircleAPI" where
  "init tok = \<lparr>token = tok, base_url = ''https://circleci.com/api/v1''\<rparr>"

text \<open>
  \<^verbatim>\<open>urlparse(self._base_url)\<close>: the text before \<^verbatim>\<open>://\<close> is the scheme, the text up to the
  next \<^verbatim>\<open>/\<close> the network location, the rest the path (the base URL has neither a query
  nor a fragment).
\<close>

fun split_at :: "string \<Rightarrow> string \<Rightarrow> string \<Rightarrow> (string \<times> string) option" where
  "split_at sep acc [] = None"
| "split_at sep acc (c # cs) =
     (if take (length sep) (c # cs) = sep then Some (rev acc, drop (length sep) (c # cs))
      else split_at sep (c # acc) cs)"

definition urlparse :: "string \<Rightarrow> ParseResult" where
  "urlparse u =
     (case split_at ''://'' [] u of
        None \<Rightarrow> \<lparr>scheme = [], netloc = [], path = u, params = [], query = [], fragment = []\<rparr>
      | Some (s, rest) \<Rightarrow>
          \<lparr>scheme = s, netloc = takeWhile (\<lambda>c. c \<noteq> CHR ''/'') rest,
           path = dropWhile (\<lambda>c. c \<noteq> CHR ''/'') rest, params = [], query = [], fragment = []\<rparr>)"

text \<open>
  \<^verbatim>\<open>_build_url\<close>.  \<^verbatim>\<open>urlencode(new_params)\<close> goes through the items of the plain dictionary
  \<^verbatim>\<open>new_params\<close>, in the order of the runtime.
\<close>

definition build_url :: "runtime \<Rightarrow> CircleAPI \<Rightarrow> string \<Rightarrow> (string \<times> string) list \<Rightarrow> string" where
  "build_url rt self endpoint ps =
     (let new_params = dict_update [(''circle-token'', token self)] ps;
          parsed_url = urlparse (base_url self);
          new_parse = \<lparr>scheme = scheme parsed_url, netloc = netloc parsed_url,
                       path = join ''/'' [path parsed_url, endpoint],
                       params = [], query = urlencode (dict_items rt new_params), fragment = []\<rparr>
      in urlunparse new_parse)"

section \<open>The HTTP transport\<close>

text \<open>
  The \<^verbatim>\<open>requests\<close> library is the transport.  A request is what the client hands to
  \<^verbatim>\<open>requests.get\<close>, \<^verbatim>\<open>requests.post\<close> or \<^verbatim>\<open>requests.delete\<close>; a response has the status code
  and the body, \<^const>\<open>None\<close> when the body is not JSON (then \<^verbatim>\<open>r.json()\<close> raises).  The
  transport answers every request and records it, so that the calls made can be counted.
\<close>

datatype http_verb = GET | POST | DELETE

record request =
  req_verb :: http_verb
  req_url :: string
  req_headers :: "(string \<times> string) list"
  req_data :: pyval

record response =
  status_code :: int
  json_body :: "pyval option"

record transport =
  respond :: "request \<Rightarrow> response"
  calls :: "request list"

type_synonym 'a io = "transport \<Rightarrow> (py_error + 'a) \<times> transport"

definition send :: "request \<Rightarrow> transport \<Rightarrow> response \<times> transport" where
  "send rq t = (respond t rq, t\<lparr>calls := calls t @ [rq]\<rparr>)"

definition json :: "response \<Rightarrow> py_error + pyval" where
  "json r = (case json_body r of None \<Rightarrow> Inl ValueError | Some v \<Rightarrow> Inr v)"

text \<open>
  \<^verbatim>\<open>Exception(u"Error sending GET request to {}".format(url))\<close>: the URL is a byte string
  put into a unicode template, which Python 2 decodes as ASCII.
\<close>

definition request_exception :: "string \<Rightarrow> string \<Rightarrow> py_error" where
  "request_exception verb_name url =
     (if is_ascii url then Exception (''Error sending '' @ verb_name @ '' request to '' @ url)
      else UnicodeDecodeError)"

text \<open>The dictionary of headers is handed to the transport as it is; the client does not
  iterate it.\<close>

definition default_headers :: "(string \<times> string) list" where
  "default_headers = [(''Content-Type'', ''application/json''), (''Accept'', ''application/json'')]"

text \<open>The methods \<^verbatim>\<open>_get\<close>, \<^verbatim>\<open>_post\<close> and \<^verbatim>\<open>_delete\<close> (a name cannot start with an underscore here).\<close>

definition get ::
  "runtime \<Rightarrow> CircleAPI \<Rightarrow> string \<Rightarrow> (string \<times> string) list \<Rightarrow> (string \<times> string) list \<Rightarrow> pyval io" where
  "get rt self endpoint ps headers t =
     (let url = build_url rt self endpoint ps;
          new_headers = dict_update default_headers headers;
          (r, t') = send \<lparr>req_verb = GET, req_url = url, req_headers = new_headers, req_data = PNone\<rparr> t
      in if status_code r \<ge> 400 then (Inl (request_exception ''GET'' url), t')
         else (json r, t'))"

definition post ::
  "runtime \<Rightarrow> CircleAPI \<Rightarrow> string \<Rightarrow> pyval \<Rightarrow> (string \<times> string) list \<Rightarrow> pyval io" where
  "post rt self endpoint data headers t =
     (let url = build_url rt self endpoint [];
          new_headers = dict_update default_headers headers;
          (r, t') = send \<lparr>req_verb = POST, req_url = url, req_headers = new_headers, req_data = data\<rparr> t
      in if status_code r \<ge> 400 then (Inl (request_exception ''POST'' url), t')
         else (json r, t'))"

definition delete ::
  "runtime \<Rightarrow> CircleAPI \<Rightarrow> string \<Rightarrow> (string \<times> string) list \<Rightarrow> pyval io" where
  "delete rt self endpoint headers t =
     (let url = build_url rt self endpoint [];
          new_headers = dict_update default_headers headers;
          (r, t') = send \<lparr>req_verb = DELETE, req_url = url, req_headers = headers, req_data = PNone\<rparr> t
      in if status_code r \<ge> 400 then (Inl (request_exception ''DELETE'' url), t')
         else (json r, t'))"

section \<open>Formatting\<close>

text \<open>
  One \<^verbatim>\<open>{}\<close> field of \<^verbatim>\<open>str.format\<close>.  The template is a byte string, so a unicode
  argument is encoded as ASCII, which fails on any other character.
\<close>

fun format_field :: "runtime \<Rightarrow> pyval \<Rightarrow> py_error + string" where
  "format_field rt (PStr s) = (if is_ascii s then Inr s else Inl UnicodeEncodeError)"
| "format_field rt PNone = Inr ''None''"
| "format_field rt (PBool b) = Inr (if b then ''True'' else ''False'')"
| "format_field rt (PInt i) = Inr (string_of_int i)"
| "format_field rt v = Inr (container_str rt v)"

text \<open>\<^verbatim>\<open>sep.join(v)\<close>: every item of the iterable must be a string.\<close>

fun str_item :: "pyval \<Rightarrow> py_error + string" where
  "str_item (PStr s) = Inr s"
| "str_item v = Inl TypeError"

definition py_join :: "string \<Rightarrow> pyval \<Rightarrow> py_error + pyval" where
  "py_join sep v =
     bind_err (iterate v) (\<lambda>items.
     bind_err (map_err str_item items) (\<lambda>parts. Inr (PStr (join sep parts))))"

fun keys :: "pyval \<Rightarrow> py_error + pyval" where
  "keys (PDict kvs) = Inr (PList (map (\<lambda>kv. PStr (fst kv)) kvs))"
| "keys v = Inl AttributeError"

text \<open>
  \<^verbatim>\<open>json.dumps(v, indent=2)\<close> of Python 2.7: non-ASCII and control characters are escaped,
  items are separated by a comma, a space and a line break, and nested containers are
  indented by two more spaces.
\<close>

definition encode_char :: "char \<Rightarrow> string" where
  "encode_char c =
     (if c = CHR 0x22 then [CHR 0x5C, CHR 0x22]
      else if c = CHR 0x5C then [CHR 0x5C, CHR 0x5C]
      else if c = CHR 0x0A then [CHR 0x5C, CHR ''n'']
      else if c = CHR 0x0D then [CHR 0x5C, CHR ''r'']
      else if c = CHR 0x09 then [CHR 0x5C, CHR ''t'']
      else if c = CHR 0x08 then [CHR 0x5C, CHR ''b'']
      else if c = CHR 0x0C then [CHR 0x5C, CHR ''f'']
      else if (of_char c :: nat) < 32 \<or> 126 < (of_char c :: nat)
        then [CHR 0x5C, CHR ''u'', CHR ''0'', CHR ''0'',
              hex_lower ((of_char c :: nat) div 16), hex_lower ((of_char c :: nat) mod 16)]
      else [c])"

definition encode_basestring_ascii :: "string \<Rightarrow> string" where
  "encode_basestring_ascii s = [CHR 0x22] @ concat (map encode_char s) @ [CHR 0x22]"

definition newline_indent :: "nat \<Rightarrow> string" where
  "newline_indent level = CHR 0x0A # replicate (2 * level) CHR '' ''"

fun iterencode :: "nat \<Rightarrow> pyval \<Rightarrow> string" where
  "iterencode level PNone = ''null''"
| "iterencode level (PBool b) = (if b then ''true'' else ''false'')"
| "iterencode level (PInt i) = string_of_int i"
| "iterencode level (PStr s) = encode_basestring_ascii s"
| "iterencode level (PList xs) =
     (if xs = [] then ''[]''
      else ''['' @ newline_indent (Suc level)
        @ join ('', '' @ newline_indent (Suc level)) (map (iterencode (Suc level)) xs)
        @ newline_indent level @ '']'')"
| "iterencode level (PDict kvs) =
     (if kvs = [] then ''{}''
      else ''{'' @ newline_indent (Suc level)
        @ join ('', '' @ newline_indent (Suc level))
            (map (\<lambda>kv. encode_basestring_ascii (fst kv) @ '': '' @ iterencode (Suc level) (snd kv)) kvs)
        @ newline_indent level @ ''}'')"

definition dumps :: "pyval \<Rightarrow> string" where
  "dumps v = iterencode 0 v"

section \<open>The public methods\<close>

text \<open>\<^verbatim>\<open>me\<close>: the ordered dictionary built when not verbose, then the method.\<close>

definition me_resp :: "pyval \<Rightarrow> py_error + pyval" where
  "me_resp r_json =
     bind_err (getitem r_json ''name'') (\<lambda>name.
     bind_err (bind_err (getitem r_json ''all_emails'') (py_join '', '')) (\<lambda>emails.
     bind_err (getitem r_json ''sign_in_count'') (\<lambda>sign_in_count.
     bind_err (getitem r_json ''heroku_api_key'') (\<lambda>heroku_api_key.
     bind_err (getitem r_json ''containers'') (\<lambda>containers.
     bind_err (getitem r_json ''parallelism'') (\<lambda>parallelism.
     bind_err (getitem r_json ''login'') (\<lambda>login.
     bind_err (getitem r_json ''admin'') (\<lambda>admin.
     bind_err (bind_err (bind_err (getitem r_json ''projects'') keys) (py_join '', '')) (\<lambda>projects.
     Inr (PDict
       (dict_set (dict_set (dict_set (dict_set (dict_set (dict_set (dict_set (dict_set (dict_set []
          ''Name'' name) ''Emails'' emails) ''Sign-In Count'' sign_in_count)
          ''Heroku API Key'' heroku_api_key) ''Containers'' containers)
          ''Parallelism'' parallelism) ''Username'' login) ''Admin'' admin)
          ''Projects'' projects)))))))))))"

definition me :: "runtime \<Rightarrow> CircleAPI \<Rightarrow> bool \<Rightarrow> pyval io" where
  "me rt self verbose t =
     (case get rt self ''me'' [] [] t of
        (Inl e, t') \<Rightarrow> (Inl e, t')
      | (Inr r_json, t') \<Rightarrow>
          if verbose then (Inr (PStr (dumps r_json)), t') else (me_resp r_json, t'))"

text \<open>\<^verbatim>\<open>'{}/{}'.format(j['username'], j['reponame'])\<close>\<close>

definition project_name :: "runtime \<Rightarrow> pyval \<Rightarrow> py_error + pyval" where
  "project_name rt j =
     bind_err (getitem j ''username'') (\<lambda>username.
     bind_err (getitem j ''reponame'') (\<lambda>reponame.
     bind_err (format_field rt username) (\<lambda>u.
     bind_err (format_field rt reponame) (\<lambda>r. Inr (PStr (u @ ''/'' @ r))))))"

definition projects :: "runtime \<Rightarrow> CircleAPI \<Rightarrow> bool \<Rightarrow> pyval io" where
  "projects rt self verbose t =
     (case get rt self ''projects'' [] [] t of
        (Inl e, t') \<Rightarrow> (Inl e, t')
      | (Inr r_json, t') \<Rightarrow>
          if verbose then (Inr (PStr (dumps r_json)), t')
          else (bind_err (iterate r_json) (\<lambda>js.
                bind_err (map_err (project_name rt) js) (\<lambda>resp. Inr (PList resp))), t'))"

text \<open>
  The body of the loop of \<^verbatim>\<open>project_builds\<close>: the ordered dictionary \<^verbatim>\<open>o\<close> of one build.
  The keys are padded with spaces as in the source.
\<close>

definition project_builds_summary :: "runtime \<Rightarrow> pyval \<Rightarrow> py_error + (string \<times> pyval) list" where
  "project_builds_summary rt build =
     bind_err (getitem build ''build_num'') (\<lambda>build_num.
     let o1 = dict_set [] ''Build# '' build_num in
     bind_err (getitem build ''author_email'') (\<lambda>cond.
     bind_err (if truthy cond
               then bind_err (getitem build ''author_name'') (\<lambda>author_name.
                    bind_err (getitem build ''author_email'') (\<lambda>author_email.
                    bind_err (format_field rt author_name) (\<lambda>n.
                    bind_err (format_field rt author_email) (\<lambda>e.
                    Inr (PStr (n @ '' <'' @ e @ ''>''))))))
               else getitem build ''author_email'') (\<lambda>author.
     let o2 = dict_set o1 ''Author '' author in
     bind_err (getitem build ''vcs_tag'') (\<lambda>vcs_tag.
     bind_err (if truthy vcs_tag
               then bind_err (getitem build ''vcs_tag'') (\<lambda>tag. Inr (dict_set o2 ''Tag    '' tag))
               else bind_err (getitem build ''branch'') (\<lambda>branch.
                    Inr (dict_set o2 ''Branch '' (if truthy branch then branch else PStr ''Unknown''))))
       (\<lambda>o3.
     bind_err (getitem build ''queued_at'') (\<lambda>queued_at.
     bind_err (local_strftime rt queued_at) (\<lambda>queued.
     let o4 = dict_set o3 ''Queued '' (PStr queued) in
     bind_err (getitem build ''why'') (\<lambda>why.
     let o5 = dict_set o4 ''Trigger'' why in
     bind_err (getitem build ''build_url'') (\<lambda>build_url.
     let o6 = dict_set o5 ''URL    '' build_url in
     bind_err (getitem build ''outcome'') (\<lambda>outcome.
     Inr (dict_set o6 ''Result '' outcome)))))))))))"

text \<open>The loop itself: \<^verbatim>\<open>resp.insert(0, o)\<close> puts each summary in front of the earlier ones.\<close>

fun project_builds_loop :: "runtime \<Rightarrow> pyval list \<Rightarrow> pyval list \<Rightarrow> py_error + pyval" where
  "project_builds_loop rt [] resp = Inr (PList resp)"
| "project_builds_loop rt (build # rest) resp =
     (case project_builds_summary rt build of
        Inl e \<Rightarrow> Inl e
      | Inr o' \<Rightarrow> project_builds_loop rt rest (PDict o' # resp))"

definition project_builds :: "runtime \<Rightarrow> CircleAPI \<Rightarrow> string \<Rightarrow> string \<Rightarrow> bool \<Rightarrow> pyval io" where
  "project_builds rt self username project verbose t =
     (case get rt self (''project/'' @ username @ ''/'' @ project) [] [] t of
        (Inl e, t') \<Rightarrow> (Inl e, t')
      | (Inr r_json, t') \<Rightarrow>
          if verbose then (Inr (PStr (dumps r_json)), t')
          else (bind_err (iterate r_json) (\<lambda>builds. project_builds_loop rt builds []), t'))"

text \<open>\<^verbatim>\<open>recent_builds\<close> repeats the loop in the source; it is translated on its own.\<close>

definition recent_builds_summary :: "runtime \<Rightarrow> pyval \<Rightarrow> py_error + (string \<times> pyval) list" where
  "recent_builds_summary rt build =
     bind_err (getitem build ''build_num'') (\<lambda>build_num.
     let o1 = dict_set [] ''Build# '' build_num in
     bind_err (getitem build ''author_email'') (\<lambda>cond.
     bind_err (if truthy cond
               then bind_err (getitem build ''author_name'') (\<lambda>author_name.
                    bind_err (getitem build ''author_email'') (\<lambda>author_email.
                    bind_err (format_field rt author_name) (\<lambda>n.
                    bind_err (format_field rt author_email) (\<lambda>e.
                    Inr (PStr (n @ '' <'' @ e @ ''>''))))))
               else getitem build ''author_email'') (\<lambda>author.
     let o2 = dict_set o1 ''Author '' author in
     bind_err (getitem build ''vcs_tag'') (\<lambda>vcs_tag.
     bind_err (if truthy vcs_tag
               then bind_err (getitem build ''vcs_tag'') (\<lambda>tag. Inr (dict_set o2 ''Tag    '' tag))
               else bind_err (getitem build ''branch'') (\<lambda>branch.
                    Inr (dict_set o2 ''Branch '' (if truthy branch then branch else PStr ''Unknown''))))
       (\<lambda>o3.
     bind_err (getitem build ''queued_at'') (\<lambda>queued_at.
     bind_err (local_strftime rt queued_at) (\<lambda>queued.
     let o4 = dict_set o3 ''Queued '' (PStr queued) in
     bind_err (getitem build ''why'') (\<lambda>why.
     let o5 = dict_set o4 ''Trigger'' why in
     bind_err (getitem build ''build_url'') (\<lambda>build_url.
     let o6 = dict_set o5 ''URL    '' build_url in
     bind_err (getitem build ''outcome'') (\<lambda>outcome.
     Inr (dict_set o6 ''Result '' outcome)))))))))))"

fun recent_builds_loop :: "runtime \<Rightarrow> pyval list \<Rightarrow> pyval list \<Rightarrow> py_error + pyval" where
  "recent_builds_loop rt [] resp = Inr (PList resp)"
| "recent_builds_loop rt (build # rest) resp =
     (case recent_builds_summary rt build of
        Inl e \<Rightarrow> Inl e
      | Inr o' \<Rightarrow> recent_builds_loop rt rest (PDict o' # resp))"

definition recent_builds :: "runtime \<Rightarrow> CircleAPI \<Rightarrow> bool \<Rightarrow> pyval io" where
  "recent_builds rt self verbose t =
     (case get rt self ''recent-builds'' [] [] t of
        (Inl e, t') \<Rightarrow> (Inl e, t')
      | (Inr r_json, t') \<Rightarrow>
          if verbose then (Inr (PStr (dumps r_json)), t')
          else (bind_err (iterate r_json) (\<lambda>builds. recent_builds_loop rt builds []), t'))"

text \<open>The methods that return the decoded response as it is.\<close>

definition build_details :: "runtime \<Rightarrow> CircleAPI \<Rightarrow> string \<Rightarrow> string \<Rightarrow> int \<Rightarrow> pyval io" where
  "build_details rt self username project build_num =
     get rt self (''project/'' @ username @ ''/'' @ project @ ''/'' @ string_of_int build_num) [] []"

definition artifacts :: "runtime \<Rightarrow> CircleAPI \<Rightarrow> string \<Rightarrow> string \<Rightarrow> int \<Rightarrow> pyval io" where
  "artifacts rt self username project build_num =
     get rt self (''project/'' @ username @ ''/'' @ project @ ''/'' @ string_of_int build_num
               @ ''/artifacts'') [] []"

definition retry_build :: "runtime \<Rightarrow> CircleAPI \<Rightarrow> string \<Rightarrow> string \<Rightarrow> int \<Rightarrow> pyval io" where
  "retry_build rt self username project build_num =
     post rt self (''project/'' @ username @ ''/'' @ project @ ''/'' @ string_of_int build_num
                @ ''/retry'') PNone []"

definition cancel_build :: "runtime \<Rightarrow> CircleAPI \<Rightarrow> string \<Rightarrow> string \<Rightarrow> int \<Rightarrow> pyval io" where
  "cancel_build rt self username project build_num =
     post rt self (''project/'' @ username @ ''/'' @ project @ ''/'' @ string_of_int build_num
                @ ''/cancel'') PNone []"

definition list_checkout_keys :: "runtime \<Rightarrow> CircleAPI \<Rightarrow> string \<Rightarrow> string \<Rightarrow> pyval io" where
  "list_checkout_keys rt self username project =
     get rt self (''project/'' @ username @ ''/'' @ project @ ''/checkout-key'') [] []"

definition checkout_key :: "runtime \<Rightarrow> CircleAPI \<Rightarrow> string \<Rightarrow> string \<Rightarrow> string \<Rightarrow> pyval io" where
  "checkout_key rt self username project fingerprint =
     get rt self (''project/'' @ username @ ''/'' @ project @ ''/checkout-key/'' @ fingerprint) [] []"

definition delete_checkout_key :: "runtime \<Rightarrow> CircleAPI \<Rightarrow> string \<Rightarrow> string \<Rightarrow> string \<Rightarrow> pyval io" where
  "delete_checkout_key rt self username project fingerprint =
     delete rt self (''project/'' @ username @ ''/'' @ project @ ''/checkout-key/'' @ fingerprint) []"

definition clear_cache :: "runtime \<Rightarrow> CircleAPI \<Rightarrow> string \<Rightarrow> string \<Rightarrow> pyval io" where
  "clear_cache rt self username project =
     delete rt self (''project/'' @ username @ ''/'' @ project @ ''/build-cache'') []"

text \<open>The methods whose body is \<^verbatim>\<open>raise NotImplementedError(...)\<close>.\<close>

definition not_implemented :: py_error where
  "not_implemented = NotImplementedError ''This method has not yet been implemented.''"

definition ssh_users :: "CircleAPI \<Rightarrow> string \<Rightarrow> string \<Rightarrow> int \<Rightarrow> pyval io" where
  "ssh_users self username project build_num t = (Inl not_implemented, t)"

definition new_build :: "CircleAPI \<Rightarrow> string \<Rightarrow> string \<Rightarrow> string \<Rightarrow> pyval io" where
  "new_build self username project branch t = (Inl not_implemented, t)"

definition create_ssh :: "CircleAPI \<Rightarrow> string \<Rightarrow> string \<Rightarrow> pyval io" where
  "create_ssh self username project t = (Inl not_implemented, t)"

definition create_checkout_key :: "CircleAPI \<Rightarrow> string \<Rightarrow> string \<Rightarrow> pyval io" where
  "create_checkout_key self username project t = (Inl not_implemented, t)"

definition add_circle_key :: "CircleAPI \<Rightarrow> pyval io" where
  "add_circle_key self t = (Inl not_implemented, t)"

definition add_heroku_key :: "CircleAPI \<Rightarrow> pyval io" where
  "add_heroku_key self t = (Inl not_implemented, t)"

section \<open>Notions used to state the properties\<close>

text \<open>The request an operation sent last, and the response the transport gave to it.\<close>

definition last_request :: "'a io \<Rightarrow> transport \<Rightarrow> request" where
  "last_request f t = last (calls (snd (f t)))"

definition answer :: "'a io \<Rightarrow> transport \<Rightarrow> response" where
  "answer f t = respond t (last_request f t)"

text \<open>An operation raises the request exception, with the URL it asked, whenever the status is 400 or more.\<close>

definition raises_on_failure :: "string \<Rightarrow> pyval io \<Rightarrow> bool" where
  "raises_on_failure verb_name f =
     (\<forall>t. 400 \<le> status_code (answer f t) \<longrightarrow>
          fst (f t) = Inl (request_exception verb_name (req_url (last_request f t))))"

text \<open>
  The operations that issue an HTTP request, each with the verb its exception names: the
  three private methods and the public methods built on them.
\<close>

definition request_operations ::
  "runtime \<Rightarrow> CircleAPI \<Rightarrow> string \<Rightarrow> (string \<times> string) list \<Rightarrow> (string \<times> string) list \<Rightarrow> pyval
     \<Rightarrow> string \<Rightarrow> string \<Rightarrow> int \<Rightarrow> string \<Rightarrow> bool \<Rightarrow> (string \<times> pyval io) list" where
  "request_operations rt self endpoint ps headers data username project build_num fingerprint verbose =
     [(''GET'', get rt self endpoint ps headers),
      (''POST'', post rt self endpoint data headers),
      (''DELETE'', delete rt self endpoint headers),
      (''GET'', me rt self verbose),
      (''GET'', projects rt self verbose),
      (''GET'', project_builds rt self username project verbose),
      (''GET'', recent_builds rt self verbose),
      (''GET'', build_details rt self username project build_num),
      (''GET'', artifacts rt self username project build_num),
      (''POST'', retry_build rt self username project build_num),
      (''POST'', cancel_build rt self username project build_num),
      (''GET'', list_checkout_keys rt self username project),
      (''GET'', checkout_key rt self username project fingerprint),
      (''DELETE'', delete_checkout_key rt self username project fingerprint),
      (''DELETE'', clear_cache rt self username project)]"

text \<open>The methods that take the verbose flag, called with the flag set.\<close>

definition verbose_operations :: "runtime \<Rightarrow> CircleAPI \<Rightarrow> string \<Rightarrow> string \<Rightarrow> pyval io list" where
  "verbose_operations rt self username project =
     [me rt self True, projects rt self True, project_builds rt self username project True,
      recent_builds rt self True]"

text \<open>An operation returns the text of \<^verbatim>\<open>json.dumps\<close> of the decoded body of a successful response.\<close>

definition dumps_on_success :: "pyval io \<Rightarrow> bool" where
  "dumps_on_success f =
     (\<forall>t r_json. status_code (answer f t) < 400 \<longrightarrow> json_body (answer f t) = Some r_json \<longrightarrow>
        fst (f t) = Inr (PStr (dumps r_json)))"

text \<open>The summaries of the builds, in the reverse of the order of the response; the first build
  whose summary raises decides the exception.\<close>

definition reversed_summaries ::
  "(pyval \<Rightarrow> py_error + (string \<times> pyval) list) \<Rightarrow> pyval list \<Rightarrow> py_error + pyval" where
  "reversed_summaries summary builds =
     (case map_err summary builds of
        Inl e \<Rightarrow> Inl e
      | Inr sums \<Rightarrow> Inr (PList (rev (map PDict sums))))"

text \<open>Two builds for examples: an older one without tag and branch, and a newer, tagged one
  whose author has no e-mail address; and the summaries they should give.\<close>

definition example_build_1 :: pyval where
  "example_build_1 =
     PDict [(''build_num'', PInt 1), (''author_name'', PStr ''Ann''),
            (''author_email'', PStr ''ann@example.org''), (''vcs_tag'', PNone), (''branch'', PNone),
            (''queued_at'', PStr ''2015-03-01T10:00:00Z''), (''why'', PStr ''github''),
            (''build_url'', PStr ''https://circleci.com/gh/u/p/1''), (''outcome'', PStr ''success'')]"

definition example_build_2 :: pyval where
  "example_build_2 =
     PDict [(''build_num'', PInt 2), (''author_name'', PStr ''Bob''),
            (''author_email'', PStr []), (''vcs_tag'', PStr ''v1.0''), (''branch'', PStr ''master''),
            (''queued_at'', PStr ''2015-03-02T11:30:00Z''), (''why'', PStr ''github''),
            (''build_url'', PStr ''https://circleci.com/gh/u/p/2''), (''outcome'', PStr ''failed'')]"

definition example_summary_1 :: "(string \<times> pyval) list" where
  "example_summary_1 =
     [(''Build# '', PInt 1), (''Author '', PStr ''Ann <ann@example.org>''),
      (''Branch '', PStr ''Unknown''), (''Queued '', PStr ''2015-03-01T10:00:00Z''),
      (''Trigger'', PStr ''github''), (''URL    '', PStr ''https://circleci.com/gh/u/p/1''),
      (''Result '', PStr ''success'')]"

definition example_summary_2 :: "(string \<times> pyval) list" where
  "example_summary_2 =
     [(''Build# '', PInt 2), (''Author '', PStr []),
      (''Tag    '', PStr ''v1.0''), (''Queued '', PStr ''2015-03-02T11:30:00Z''),
      (''Trigger'', PStr ''github''), (''URL    '', PStr ''https://circleci.com/gh/u/p/2''),
      (''Result '', PStr ''failed'')]"

text \<open>Two more records: one with a null tag and no \<^verbatim>\<open>branch\<close> key, and one whose author has a
  name that is not ASCII (its last letter is an e with an acute accent, code point 233).\<close>

definition example_build_no_branch :: pyval where
  "example_build_no_branch =
     PDict [(''build_num'', PInt 3), (''author_name'', PStr ''Ann''),
            (''author_email'', PStr ''ann@example.org''), (''vcs_tag'', PNone),
            (''queued_at'', PStr ''2015-03-03T09:00:00Z''), (''why'', PStr ''github''),
            (''build_url'', PStr ''https://circleci.com/gh/u/p/3''), (''outcome'', PStr ''success'')]"


text \<open>A transport double that gives one fixed response to every request and has recorded nothing.\<close>

definition stub_transport :: "int \<Rightarrow> pyval option \<Rightarrow> transport" where
  "stub_transport st body = \<lparr>respond = (\<lambda>rq. \<lparr>status_code = st, json_body = body\<rparr>), calls = []\<rparr>"

text \<open>
  A runtime for examples: the time stamp is kept as it is, containers print as dots, and a
  dictionary is iterated as it is listed.  The examples only iterate dictionaries of one key,
  which every runtime iterates alike.
\<close>

definition example_runtime :: runtime where
  "example_runtime =
     \<lparr>local_strftime = (\<lambda>v. case v of PStr s \<Rightarrow> Inr s | _ \<Rightarrow> Inl TypeError),
      container_str = (\<lambda>v. ''...''),
      dict_items = (\<lambda>d. d)\<rparr>"

section \<open>Dictionaries and sequencing\<close>

lemma bind_err_Inl: "bind_err (Inl e) f = Inl e"
  by (simp add: bind_err_def)

lemma bind_err_Inr: "bind_err (Inr x) f = f x"
  by (simp add: bind_err_def)

lemma map_of_dict_set: "map_of (dict_set d k v) = (map_of d)(k \<mapsto> v)"
  by (induction d k v rule: dict_set.induct) auto




lemma map_of_dict_update:
  "distinct (map fst other) \<Longrightarrow> map_of (dict_update d other) = map_of d ++ map_of other"
proof (induction d other rule: dict_update.induct)
  case (1 d)
  then show ?case by simp
next
  case (2 d k v other)
  from "2.prems" have notin: "map_of other k = None"
    by (simp add: map_of_eq_None_iff)
  from "2.prems" have "map_of (dict_update (dict_set d k v) other) = map_of (dict_set d k v) ++ map_of other"
    using "2.IH" by simp
  also have "\<dots> = map_of d ++ map_of ((k, v) # other)"
  proof (rule ext)
    fix a
    show "(map_of (dict_set d k v) ++ map_of other) a = (map_of d ++ map_of ((k, v) # other)) a"
      using notin by (cases "a = k") (auto simp: map_of_dict_set map_add_def split: option.splits)
  qed
  finally show ?case by (simp only: dict_update.simps)
qed

lemma dict_set_not_Nil: "dict_set d k v \<noteq> []"
  by (cases d) (auto split: if_splits)

lemma dict_update_not_Nil: "d \<noteq> [] \<Longrightarrow> dict_update d other \<noteq> []"
  by (induction d other rule: dict_update.induct) (simp_all add: dict_set_not_Nil)

section \<open>The request URL\<close>

lemma join_not_Nil: "x \<noteq> [] \<Longrightarrow> join sep (x # xs) \<noteq> []"
  by (cases xs) auto

lemma urlencode_not_Nil: "q \<noteq> [] \<Longrightarrow> urlencode q \<noteq> []"
  by (cases q) (auto simp: urlencode_def join_not_Nil)

lemma urlparse_base:
  "urlparse ''https://circleci.com/api/v1'' =
     \<lparr>scheme = ''https'', netloc = ''circleci.com'', path = ''/api/v1'', params = [], query = [],
      fragment = []\<rparr>"
  by (simp add: urlparse_def)




lemma build_url_eq:
  assumes "dict_items rt (dict_update [(''circle-token'', tok)] ps) \<noteq> []"
  shows "build_url rt (init tok) endpoint ps =
     ''https://circleci.com/api/v1/'' @ endpoint @ ''?''
       @ urlencode (dict_items rt (dict_update [(''circle-token'', tok)] ps))"
proof -
  from assms have "urlencode (dict_items rt (dict_update [(''circle-token'', tok)] ps)) \<noteq> []"
    by (rule urlencode_not_Nil)
  then show ?thesis
    by (simp add: build_url_def init_def urlparse_base urlunparse_def Let_def)
qed


lemma build_url_example:
  "build_url example_runtime (init tok) endpoint ps =
     ''https://circleci.com/api/v1/'' @ endpoint @ ''?''
       @ urlencode (dict_update [(''circle-token'', tok)] ps)"
proof -
  have i: "dict_items example_runtime (dict_update [(''circle-token'', tok)] ps)
             = dict_update [(''circle-token'', tok)] ps"
    by (simp add: example_runtime_def)
  have "dict_items example_runtime (dict_update [(''circle-token'', tok)] ps) \<noteq> []"
    unfolding i by (simp add: dict_update_not_Nil)
  from build_url_eq [OF this] show ?thesis
    unfolding i .
qed



text \<open>
  With two keys the order of the runtime shows in the URL.  A runtime that iterates the
  dictionary \<^verbatim>\<open>{'circle-token': 'tok'}\<close> updated by \<^verbatim>\<open>{'limit': '5'}\<close> with \<^verbatim>\<open>limit\<close> first,
  as the hash table of CPython 2.7 does, gives the query \<^verbatim>\<open>limit=5&circle-token=tok\<close>.
\<close>

lemma build_url_in_hash_order:
  assumes "dict_items rt [(''circle-token'', ''tok''), (''limit'', ''5'')] =
             [(''limit'', ''5''), (''circle-token'', ''tok'')]"
  shows "build_url rt (init ''tok'') ''me'' [(''limit'', ''5'')] =
           ''https://circleci.com/api/v1/me?limit=5&circle-token=tok''"
proof -
  have d: "dict_update [(''circle-token'', ''tok'')] [(''limit'', ''5'')] =
             [(''circle-token'', ''tok''), (''limit'', ''5'')]"
    by simp
  from assms have "dict_items rt (dict_update [(''circle-token'', ''tok'')] [(''limit'', ''5'')]) \<noteq> []"
    unfolding d by simp
  from build_url_eq [OF this] show ?thesis
    unfolding d assms
    by (simp add: urlencode_def quote_plus_def quote_char_def always_safe_def)
qed

section \<open>The methods that are not implemented\<close>

text \<open>
  C3.  Each method whose body only raises \<^verbatim>\<open>NotImplementedError\<close> (adding a user to a build's
  SSH permissions, triggering a new build, creating an SSH key, creating a checkout key, and
  the two that link an external key to the account) returns that exception for every
  transport and leaves the transport as it was: no request is recorded.
\<close>

theorem unimplemented_raise_without_request:
  "ssh_users self username project build_num t =
     (Inl (NotImplementedError ''This method has not yet been implemented.''), t)
   \<and> new_build self username project branch t =
     (Inl (NotImplementedError ''This method has not yet been implemented.''), t)
   \<and> create_ssh self username project t =
     (Inl (NotImplementedError ''This method has not yet been implemented.''), t)
   \<and> create_checkout_key self username project t =
     (Inl (NotImplementedError ''This method has not yet been implemented.''), t)
   \<and> add_circle_key self t =
     (Inl (NotImplementedError ''This method has not yet been implemented.''), t)
   \<and> add_heroku_key self t =
     (Inl (NotImplementedError ''This method has not yet been implemented.''), t)
   \<and> calls (snd (ssh_users self username project build_num (stub_transport st body))) = []
   \<and> calls (snd (new_build self username project branch (stub_transport st body))) = []
   \<and> calls (snd (create_ssh self username project (stub_transport st body))) = []
   \<and> calls (snd (create_checkout_key self username project (stub_transport st body))) = []
   \<and> calls (snd (add_circle_key self (stub_transport st body))) = []
   \<and> calls (snd (add_heroku_key self (stub_transport st body))) = []"
  by (simp add: ssh_users_def new_build_def create_ssh_def create_checkout_key_def
      add_circle_key_def add_heroku_key_def not_implemented_def stub_transport_def)

section \<open>Requests and failures\<close>

lemma get_eq:
  "get rt self endpoint ps headers t =
     (if 400 \<le> status_code (respond t \<lparr>req_verb = GET, req_url = build_url rt self endpoint ps,
                 req_headers = dict_update default_headers headers, req_data = PNone\<rparr>)
      then Inl (request_exception ''GET'' (build_url rt self endpoint ps))
      else json (respond t \<lparr>req_verb = GET, req_url = build_url rt self endpoint ps,
                 req_headers = dict_update default_headers headers, req_data = PNone\<rparr>),
      t\<lparr>calls := calls t @ [\<lparr>req_verb = GET, req_url = build_url rt self endpoint ps,
                 req_headers = dict_update default_headers headers, req_data = PNone\<rparr>]\<rparr>)"
  by (simp add: get_def send_def Let_def)

lemma post_eq:
  "post rt self endpoint data headers t =
     (if 400 \<le> status_code (respond t \<lparr>req_verb = POST, req_url = build_url rt self endpoint [],
                 req_headers = dict_update default_headers headers, req_data = data\<rparr>)
      then Inl (request_exception ''POST'' (build_url rt self endpoint []))
      else json (respond t \<lparr>req_verb = POST, req_url = build_url rt self endpoint [],
                 req_headers = dict_update default_headers headers, req_data = data\<rparr>),
      t\<lparr>calls := calls t @ [\<lparr>req_verb = POST, req_url = build_url rt self endpoint [],
                 req_headers = dict_update default_headers headers, req_data = data\<rparr>]\<rparr>)"
  by (simp add: post_def send_def Let_def)

lemma delete_eq:
  "delete rt self endpoint headers t =
     (if 400 \<le> status_code (respond t \<lparr>req_verb = DELETE, req_url = build_url rt self endpoint [],
                 req_headers = headers, req_data = PNone\<rparr>)
      then Inl (request_exception ''DELETE'' (build_url rt self endpoint []))
      else json (respond t \<lparr>req_verb = DELETE, req_url = build_url rt self endpoint [],
                 req_headers = headers, req_data = PNone\<rparr>),
      t\<lparr>calls := calls t @ [\<lparr>req_verb = DELETE, req_url = build_url rt self endpoint [],
                 req_headers = headers, req_data = PNone\<rparr>]\<rparr>)"
  by (simp add: delete_def send_def Let_def)

lemma get_last_request:
  "last_request (get rt self endpoint ps headers) t =
     \<lparr>req_verb = GET, req_url = build_url rt self endpoint ps,
      req_headers = dict_update default_headers headers, req_data = PNone\<rparr>"
  by (simp add: last_request_def get_eq)

lemma post_last_request:
  "last_request (post rt self endpoint data headers) t =
     \<lparr>req_verb = POST, req_url = build_url rt self endpoint [],
      req_headers = dict_update default_headers headers, req_data = data\<rparr>"
  by (simp add: last_request_def post_eq)

lemma delete_last_request:
  "last_request (delete rt self endpoint headers) t =
     \<lparr>req_verb = DELETE, req_url = build_url rt self endpoint [],
      req_headers = headers, req_data = PNone\<rparr>"
  by (simp add: last_request_def delete_eq)

lemma get_fst:
  "fst (get rt self endpoint ps headers t) =
     (if 400 \<le> status_code (answer (get rt self endpoint ps headers) t)
      then Inl (request_exception ''GET'' (req_url (last_request (get rt self endpoint ps headers) t)))
      else json (answer (get rt self endpoint ps headers) t))"
  by (simp add: answer_def get_last_request) (simp add: get_eq)

lemma post_fst:
  "fst (post rt self endpoint data headers t) =
     (if 400 \<le> status_code (answer (post rt self endpoint data headers) t)
      then Inl (request_exception ''POST'' (req_url (last_request (post rt self endpoint data headers) t)))
      else json (answer (post rt self endpoint data headers) t))"
  by (simp add: answer_def post_last_request) (simp add: post_eq)

lemma delete_fst:
  "fst (delete rt self endpoint headers t) =
     (if 400 \<le> status_code (answer (delete rt self endpoint headers) t)
      then Inl (request_exception ''DELETE'' (req_url (last_request (delete rt self endpoint headers) t)))
      else json (answer (delete rt self endpoint headers) t))"
  by (simp add: answer_def delete_last_request) (simp add: delete_eq)

lemma me_snd: "snd (me rt self verbose t) = snd (get rt self ''me'' [] [] t)"
  by (simp add: me_def split: prod.splits sum.splits)

lemma me_fst:
  "fst (me rt self verbose t) =
     (case fst (get rt self ''me'' [] [] t) of
        Inl e \<Rightarrow> Inl e
      | Inr r_json \<Rightarrow> if verbose then Inr (PStr (dumps r_json)) else me_resp r_json)"
  by (simp add: me_def split: prod.splits sum.splits)

lemma raises_get: "raises_on_failure ''GET'' (get rt self endpoint ps headers)"
  unfolding raises_on_failure_def using get_fst by simp

lemma raises_after:
  assumes "\<And>t. snd (f t) = snd (g t)"
    and "\<And>t e. fst (g t) = Inl e \<Longrightarrow> fst (f t) = Inl e"
    and "raises_on_failure v g"
  shows "raises_on_failure v f"
  using assms unfolding raises_on_failure_def answer_def last_request_def by simp

lemma raises_me: "raises_on_failure ''GET'' (me rt self verbose)"
  by (rule raises_after [OF me_snd _ raises_get]) (simp add: me_fst)


lemma projects_snd: "snd (projects rt self verbose t) = snd (get rt self ''projects'' [] [] t)"
  by (simp add: projects_def split: prod.splits sum.splits)

lemma projects_fst:
  "fst (projects rt self verbose t) =
     (case fst (get rt self ''projects'' [] [] t) of
        Inl e \<Rightarrow> Inl e
      | Inr r_json \<Rightarrow>
          if verbose then Inr (PStr (dumps r_json))
          else bind_err (iterate r_json) (\<lambda>js.
               bind_err (map_err (project_name rt) js) (\<lambda>resp. Inr (PList resp))))"
  by (simp add: projects_def split: prod.splits sum.splits)

lemma project_builds_snd:
  "snd (project_builds rt self username project verbose t) =
     snd (get rt self (''project/'' @ username @ ''/'' @ project) [] [] t)"
  by (simp add: project_builds_def split: prod.splits sum.splits)

lemma project_builds_fst:
  "fst (project_builds rt self username project verbose t) =
     (case fst (get rt self (''project/'' @ username @ ''/'' @ project) [] [] t) of
        Inl e \<Rightarrow> Inl e
      | Inr r_json \<Rightarrow>
          if verbose then Inr (PStr (dumps r_json))
          else bind_err (iterate r_json) (\<lambda>builds. project_builds_loop rt builds []))"
  by (simp add: project_builds_def split: prod.splits sum.splits)

lemma recent_builds_snd: "snd (recent_builds rt self verbose t) = snd (get rt self ''recent-builds'' [] [] t)"
  by (simp add: recent_builds_def split: prod.splits sum.splits)

lemma recent_builds_fst:
  "fst (recent_builds rt self verbose t) =
     (case fst (get rt self ''recent-builds'' [] [] t) of
        Inl e \<Rightarrow> Inl e
      | Inr r_json \<Rightarrow>
          if verbose then Inr (PStr (dumps r_json))
          else bind_err (iterate r_json) (\<lambda>builds. recent_builds_loop rt builds []))"
  by (simp add: recent_builds_def split: prod.splits sum.splits)

lemma raises_post: "raises_on_failure ''POST'' (post rt self endpoint data headers)"
  unfolding raises_on_failure_def using post_fst by simp

lemma raises_delete: "raises_on_failure ''DELETE'' (delete rt self endpoint headers)"
  unfolding raises_on_failure_def using delete_fst by simp

lemma raises_projects: "raises_on_failure ''GET'' (projects rt self verbose)"
  by (rule raises_after [OF projects_snd _ raises_get]) (simp add: projects_fst)

lemma raises_project_builds: "raises_on_failure ''GET'' (project_builds rt self username project verbose)"
  by (rule raises_after [OF project_builds_snd _ raises_get]) (simp add: project_builds_fst)

lemma raises_recent_builds: "raises_on_failure ''GET'' (recent_builds rt self verbose)"
  by (rule raises_after [OF recent_builds_snd _ raises_get]) (simp add: recent_builds_fst)

lemma raises_request_operations:
  "(verb_name, f) \<in> set (request_operations rt self endpoint ps headers data username project
        build_num fingerprint verbose) \<Longrightarrow> raises_on_failure verb_name f"
  unfolding request_operations_def build_details_def artifacts_def retry_build_def cancel_build_def
    list_checkout_keys_def checkout_key_def delete_checkout_key_def clear_cache_def
  using raises_get raises_post raises_delete raises_me raises_projects raises_project_builds
    raises_recent_builds
  by auto

text \<open>
  C1 (amended).  For every operation that issues an HTTP request, if the response to that
  request has a status of 400 or more, the operation raises and returns no parsed body.  What it
  raises is a plain \<^verbatim>\<open>Exception\<close> whose message names the verb and the URL of the request
  (for a URL of ASCII characters; otherwise the formatting of the message itself raises).  The
  status code is not part of it.
\<close>

theorem failed_request_raises:
  assumes "(verb_name, f) \<in> set (request_operations rt self endpoint ps headers data username
             project build_num fingerprint verbose)"
    and "400 \<le> status_code (answer f t)"
  shows "fst (f t) = Inl (request_exception verb_name (req_url (last_request f t)))
         \<and> (is_ascii (req_url (last_request f t)) \<longrightarrow>
              fst (f t) = Inl (Exception (''Error sending '' @ verb_name @ '' request to ''
                                          @ req_url (last_request f t))))
         \<and> (\<forall>body. fst (f t) \<noteq> Inr body)"
proof -
  have "raises_on_failure verb_name f"
    using assms(1) by (rule raises_request_operations)
  with assms(2) have "fst (f t) = Inl (request_exception verb_name (req_url (last_request f t)))"
    by (simp add: raises_on_failure_def)
  then show ?thesis
    by (simp add: request_exception_def)
qed

theorem failed_request_raises_witness:
  "(''GET'', me example_runtime (init ''tok'') False)
     \<in> set (request_operations example_runtime (init ''tok'') ''me'' [] [] PNone ''u'' ''p'' 7 ''f'' False)
   \<and> 400 \<le> status_code (answer (me example_runtime (init ''tok'') False) (stub_transport 404 (Some (PDict []))))
   \<and> fst (me example_runtime (init ''tok'') False (stub_transport 404 (Some (PDict [])))) =
       Inl (Exception ''Error sending GET request to https://circleci.com/api/v1/me?circle-token=tok'')"
proof -
  have m: "(''GET'', me example_runtime (init ''tok'') False)
     \<in> set (request_operations example_runtime (init ''tok'') ''me'' [] [] PNone ''u'' ''p'' 7 ''f'' False)"
    by (simp add: request_operations_def)
  have a: "400 \<le> status_code (answer (me example_runtime (init ''tok'') False) (stub_transport 404 (Some (PDict []))))"
    by (simp add: answer_def stub_transport_def)
  have u: "req_url (last_request (me example_runtime (init ''tok'') False) (stub_transport 404 (Some (PDict []))))
             = ''https://circleci.com/api/v1/me?circle-token=tok''"
    by (simp add: last_request_def me_snd get_eq build_url_example urlencode_def quote_plus_def
        quote_char_def always_safe_def)
  show ?thesis
    using m a failed_request_raises [OF m a] by (simp add: u is_ascii_def request_exception_def)
qed

text \<open>
  The claim as stated asks for an error that carries the status code.  The exception raised for
  a 404 and the one raised for a 500 are the same value: a message with the URL only.
\<close>

theorem get_exception_same_for_404_and_500:
  "fst (get example_runtime (init ''tok'') ''me'' [] [] (stub_transport 404 None)) =
     Inl (Exception ''Error sending GET request to https://circleci.com/api/v1/me?circle-token=tok'')
   \<and> fst (get example_runtime (init ''tok'') ''me'' [] [] (stub_transport 500 None)) =
     Inl (Exception ''Error sending GET request to https://circleci.com/api/v1/me?circle-token=tok'')"
  by (simp add: get_eq stub_transport_def request_exception_def is_ascii_def build_url_example
      urlencode_def quote_plus_def quote_char_def always_safe_def)

section \<open>The verbose flag\<close>

lemma get_success:
  "status_code (answer (get rt self endpoint ps headers) t) < 400 \<Longrightarrow>
   json_body (answer (get rt self endpoint ps headers) t) = Some r_json \<Longrightarrow>
   fst (get rt self endpoint ps headers t) = Inr r_json"
  by (simp add: get_fst json_def)

lemma answer_cong: "(\<And>t. snd (f t) = snd (g t)) \<Longrightarrow> answer f t = answer g t"
  by (simp add: answer_def last_request_def)

lemma dumps_me: "dumps_on_success (me rt self True)"
  unfolding dumps_on_success_def
  by (simp add: answer_cong [of "me rt self True", OF me_snd] me_fst get_success)

lemma dumps_projects: "dumps_on_success (projects rt self True)"
  unfolding dumps_on_success_def
  by (simp add: answer_cong [of "projects rt self True", OF projects_snd] projects_fst get_success)

lemma dumps_project_builds: "dumps_on_success (project_builds rt self username project True)"
  unfolding dumps_on_success_def
  by (simp add: answer_cong [of "project_builds rt self username project True", OF project_builds_snd]
      project_builds_fst get_success)

lemma dumps_recent_builds: "dumps_on_success (recent_builds rt self True)"
  unfolding dumps_on_success_def
  by (simp add: answer_cong [of "recent_builds rt self True", OF recent_builds_snd]
      recent_builds_fst get_success)

text \<open>
  C5 (amended).  Each of the four methods with a verbose flag (\<^verbatim>\<open>me\<close>, \<^verbatim>\<open>projects\<close>,
  \<^verbatim>\<open>project_builds\<close>, \<^verbatim>\<open>recent_builds\<close>), called with the flag set on a successful response,
  returns the string \<^verbatim>\<open>json.dumps(r_json, indent=2)\<close>: the whole decoded response printed as
  indented JSON text, with no field selected or reshaped.  It is a string, not the decoded
  value.
\<close>

theorem verbose_returns_dumped_text:
  assumes "f \<in> set (verbose_operations rt self username project)"
    and "status_code (answer f t) < 400"
    and "json_body (answer f t) = Some r_json"
  shows "fst (f t) = Inr (PStr (dumps r_json))"
proof -
  from assms(1) have "dumps_on_success f"
    unfolding verbose_operations_def
    using dumps_me dumps_projects dumps_project_builds dumps_recent_builds by auto
  with assms(2,3) show ?thesis
    by (simp add: dumps_on_success_def)
qed

lemma stub_answer: "answer f (stub_transport st body) = \<lparr>status_code = st, json_body = body\<rparr>"
  by (simp add: answer_def stub_transport_def)

theorem verbose_returns_dumped_text_witness:
  "projects example_runtime (init ''tok'') True \<in> set (verbose_operations example_runtime (init ''tok'') ''u'' ''p'')
   \<and> status_code (answer (projects example_runtime (init ''tok'') True)
         (stub_transport 200 (Some (PList [PInt 1, PList []])))) < 400
   \<and> json_body (answer (projects example_runtime (init ''tok'') True)
         (stub_transport 200 (Some (PList [PInt 1, PList []])))) = Some (PList [PInt 1, PList []])
   \<and> fst (projects example_runtime (init ''tok'') True (stub_transport 200 (Some (PList [PInt 1, PList []]))))
       = Inr (PStr [CHR ''['', CHR 0x0A, CHR '' '', CHR '' '', CHR ''1'', CHR '','', CHR '' '', CHR 0x0A,
                    CHR '' '', CHR '' '', CHR ''['', CHR '']'', CHR 0x0A, CHR '']''])"
proof -
  have m: "projects example_runtime (init ''tok'') True
             \<in> set (verbose_operations example_runtime (init ''tok'') ''u'' ''p'')"
    by (simp add: verbose_operations_def)
  have s: "status_code (answer (projects example_runtime (init ''tok'') True)
         (stub_transport 200 (Some (PList [PInt 1, PList []])))) < 400"
    by (simp add: stub_answer)
  have b: "json_body (answer (projects example_runtime (init ''tok'') True)
         (stub_transport 200 (Some (PList [PInt 1, PList []])))) = Some (PList [PInt 1, PList []])"
    by (simp add: stub_answer)
  have d: "dumps (PList [PInt 1, PList []]) =
      [CHR ''['', CHR 0x0A, CHR '' '', CHR '' '', CHR ''1'', CHR '','', CHR '' '', CHR 0x0A,
                    CHR '' '', CHR '' '', CHR ''['', CHR '']'', CHR 0x0A, CHR '']'']"
    by (simp add: dumps_def newline_indent_def string_of_int_def digit_char_def numeral_2_eq_2)
  show ?thesis
    using m s b verbose_returns_dumped_text [OF m s b] by (simp add: d)
qed

text \<open>
  The claim as stated has the decoded response returned unchanged.  For the response
  \<^verbatim>\<open>{"name": "a"}\<close> the verbose \<^verbatim>\<open>me\<close> returns a string of three lines, which is not the
  decoded dictionary.
\<close>

theorem verbose_me_is_not_the_decoded_response:
  "fst (me example_runtime (init ''tok'') True (stub_transport 200 (Some (PDict [(''name'', PStr ''a'')]))))
     = Inr (PStr [CHR ''{'', CHR 0x0A, CHR '' '', CHR '' '', CHR 0x22, CHR ''n'', CHR ''a'', CHR ''m'', CHR ''e'',
                  CHR 0x22, CHR '':'', CHR '' '', CHR 0x22, CHR ''a'', CHR 0x22, CHR 0x0A, CHR ''}''])
   \<and> fst (me example_runtime (init ''tok'') True (stub_transport 200 (Some (PDict [(''name'', PStr ''a'')]))))
     \<noteq> Inr (PDict [(''name'', PStr ''a'')])"
  by (simp add: me_fst get_eq stub_transport_def json_def dumps_def newline_indent_def
      encode_basestring_ascii_def encode_char_def numeral_2_eq_2)

section \<open>The headers sent\<close>

text \<open>\<^verbatim>\<open>_get\<close> and \<^verbatim>\<open>_post\<close> send the default headers updated by the caller's.\<close>

lemma get_post_merge_headers:
  "req_headers (last_request (get rt self endpoint ps headers) t) = dict_update default_headers headers
   \<and> req_headers (last_request (post rt self endpoint data headers) t) = dict_update default_headers headers
   \<and> (distinct (map fst headers) \<longrightarrow>
        map_of (dict_update default_headers headers) = map_of default_headers ++ map_of headers)"
  by (simp add: get_last_request post_last_request map_of_dict_update)

text \<open>
  C6.  The claim asks the same of all three verbs.  \<^verbatim>\<open>_delete\<close> builds the merged headers
  but passes the caller's own dictionary to the transport: whatever the caller gives is sent as
  it is, and \<^verbatim>\<open>clear_cache\<close>, which gives none, sends no header at all, where a GET with no
  caller headers sends the two defaults.
\<close>

theorem delete_sends_only_caller_headers:
  "req_headers (last_request (delete rt self endpoint headers) t) = headers
   \<and> req_headers (last_request (clear_cache example_runtime (init ''tok'') ''u'' ''p'') (stub_transport 200 (Some (PDict [])))) = []
   \<and> req_headers (last_request (get example_runtime (init ''tok'') ''project/u/p'' [] []) (stub_transport 200 (Some (PDict []))))
       = [(''Content-Type'', ''application/json''), (''Accept'', ''application/json'')]"
  by (simp add: delete_last_request get_last_request clear_cache_def default_headers_def)

section \<open>Build summaries\<close>

lemma recent_builds_summary_eq: "recent_builds_summary rt build = project_builds_summary rt build"
  by (simp add: recent_builds_summary_def project_builds_summary_def)

lemma project_builds_loop_eq:
  "project_builds_loop rt builds resp =
     (case map_err (project_builds_summary rt) builds of
        Inl e \<Rightarrow> Inl e
      | Inr sums \<Rightarrow> Inr (PList (rev (map PDict sums) @ resp)))"
  by (induction builds arbitrary: resp) (simp_all split: sum.splits)

lemma recent_builds_loop_eq:
  "recent_builds_loop rt builds resp =
     (case map_err (recent_builds_summary rt) builds of
        Inl e \<Rightarrow> Inl e
      | Inr sums \<Rightarrow> Inr (PList (rev (map PDict sums) @ resp)))"
  by (induction builds arbitrary: resp) (simp_all split: sum.splits)

text \<open>
  When the summary of a build is produced, every field it reads was there, and the ordered
  dictionary has these seven entries in this order.
\<close>

lemma project_builds_summary_Inr:
  assumes "project_builds_summary rt build = Inr o'"
  shows "\<exists>build_num email author tag third queued_at queued why url outcome.
     getitem build ''build_num'' = Inr build_num
   \<and> getitem build ''author_email'' = Inr email
   \<and> (if truthy email
       then \<exists>name n e. getitem build ''author_name'' = Inr name \<and> format_field rt name = Inr n
              \<and> format_field rt email = Inr e \<and> author = PStr (n @ '' <'' @ e @ ''>'')
       else author = email)
   \<and> getitem build ''vcs_tag'' = Inr tag
   \<and> (if truthy tag then third = (''Tag    '', tag)
       else \<exists>branch. getitem build ''branch'' = Inr branch
              \<and> third = (''Branch '', if truthy branch then branch else PStr ''Unknown''))
   \<and> getitem build ''queued_at'' = Inr queued_at
   \<and> local_strftime rt queued_at = Inr queued
   \<and> getitem build ''why'' = Inr why
   \<and> getitem build ''build_url'' = Inr url
   \<and> getitem build ''outcome'' = Inr outcome
   \<and> o' = [(''Build# '', build_num), (''Author '', author), third, (''Queued '', PStr queued),
           (''Trigger'', why), (''URL    '', url), (''Result '', outcome)]"
  using assms unfolding project_builds_summary_def
  by (auto simp: bind_err_def Let_def split: sum.splits if_splits)


text \<open>A record without a \<^verbatim>\<open>vcs_tag\<close> key has no summary: the lookup raises.\<close>

lemma summary_needs_vcs_tag:
  assumes "getitem build ''vcs_tag'' = Inl e"
  shows "\<exists>e'. project_builds_summary rt build = Inl e'"
proof (cases "project_builds_summary rt build")
  case (Inl e')
  then show ?thesis by blast
next
  case (Inr o')
  from project_builds_summary_Inr [OF this] assms show ?thesis
    by auto
qed

text \<open>
  A record that has the fields read, with an author that can be formatted and a time that
  can be parsed, has a summary, and the summary is this ordered dictionary.
\<close>

lemma project_builds_summary_value:
  assumes "getitem build ''build_num'' = Inr build_num"
    and "getitem build ''author_email'' = Inr email"
    and "truthy email \<longrightarrow> getitem build ''author_name'' = Inr name
           \<and> format_field rt name = Inr n \<and> format_field rt email = Inr e"
    and "getitem build ''vcs_tag'' = Inr tag"
    and "\<not> truthy tag \<longrightarrow> getitem build ''branch'' = Inr branch"
    and "getitem build ''queued_at'' = Inr queued_at"
    and "local_strftime rt queued_at = Inr queued"
    and "getitem build ''why'' = Inr why"
    and "getitem build ''build_url'' = Inr url"
    and "getitem build ''outcome'' = Inr outcome"
  shows "project_builds_summary rt build =
           Inr [(''Build# '', build_num),
                (''Author '', if truthy email then PStr (n @ '' <'' @ e @ ''>'') else email),
                (if truthy tag then (''Tag    '', tag)
                 else (''Branch '', if truthy branch then branch else PStr ''Unknown'')),
                (''Queued '', PStr queued), (''Trigger'', why), (''URL    '', url),
                (''Result '', outcome)]"
proof (cases "truthy email")
  case True
  with assms show ?thesis
    unfolding project_builds_summary_def
    by (cases "truthy tag") (simp_all add: bind_err_def Let_def)
next
  case False
  with assms show ?thesis
    unfolding project_builds_summary_def
    by (cases "truthy tag") (simp_all add: bind_err_def Let_def)
qed

text \<open>A string can be formatted exactly when it is ASCII, and then it is its own text.\<close>

lemma format_field_string: "format_field rt (PStr s) = Inr s' \<longleftrightarrow> is_ascii s \<and> s' = s"
  by auto

lemma summary_of_example_1: "project_builds_summary example_runtime example_build_1 = Inr example_summary_1"
  by (simp add: project_builds_summary_def example_build_1_def example_summary_1_def
      example_runtime_def bind_err_def is_ascii_def)

lemma summary_of_example_2: "project_builds_summary example_runtime example_build_2 = Inr example_summary_2"
  by (simp add: project_builds_summary_def example_build_2_def example_summary_2_def
      example_runtime_def bind_err_def is_ascii_def)

text \<open>The fields of the two example records, as the hypotheses on a record ask for them.\<close>

lemma example_build_1_fields:
  shows "getitem example_build_1 ''build_num'' = Inr (PInt 1)"
    and "getitem example_build_1 ''author_email'' = Inr (PStr ''ann@example.org'')"
    and "truthy (PStr ''ann@example.org'') \<longrightarrow> getitem example_build_1 ''author_name'' = Inr (PStr ''Ann'')
           \<and> format_field example_runtime (PStr ''Ann'') = Inr ''Ann''
           \<and> format_field example_runtime (PStr ''ann@example.org'') = Inr ''ann@example.org''"
    and "getitem example_build_1 ''vcs_tag'' = Inr PNone"
    and "\<not> truthy PNone \<longrightarrow> getitem example_build_1 ''branch'' = Inr PNone"
    and "getitem example_build_1 ''queued_at'' = Inr (PStr ''2015-03-01T10:00:00Z'')"
    and "local_strftime example_runtime (PStr ''2015-03-01T10:00:00Z'') = Inr ''2015-03-01T10:00:00Z''"
    and "getitem example_build_1 ''why'' = Inr (PStr ''github'')"
    and "getitem example_build_1 ''build_url'' = Inr (PStr ''https://circleci.com/gh/u/p/1'')"
    and "getitem example_build_1 ''outcome'' = Inr (PStr ''success'')"
  by (simp_all add: example_build_1_def example_runtime_def is_ascii_def)

lemma example_build_2_fields:
  shows "getitem example_build_2 ''build_num'' = Inr (PInt 2)"
    and "getitem example_build_2 ''author_email'' = Inr (PStr [])"
    and "truthy (PStr []) \<longrightarrow> getitem example_build_2 ''author_name'' = Inr (PStr ''Bob'')
           \<and> format_field example_runtime (PStr ''Bob'') = Inr ''Bob''
           \<and> format_field example_runtime (PStr []) = Inr []"
    and "getitem example_build_2 ''vcs_tag'' = Inr (PStr ''v1.0'')"
    and "\<not> truthy (PStr ''v1.0'') \<longrightarrow> getitem example_build_2 ''branch'' = Inr (PStr ''master'')"
    and "getitem example_build_2 ''queued_at'' = Inr (PStr ''2015-03-02T11:30:00Z'')"
    and "local_strftime example_runtime (PStr ''2015-03-02T11:30:00Z'') = Inr ''2015-03-02T11:30:00Z''"
    and "getitem example_build_2 ''why'' = Inr (PStr ''github'')"
    and "getitem example_build_2 ''build_url'' = Inr (PStr ''https://circleci.com/gh/u/p/2'')"
    and "getitem example_build_2 ''outcome'' = Inr (PStr ''failed'')"
  by (simp_all add: example_build_2_def example_runtime_def is_ascii_def)

text \<open>
  C7 (amended).  Take a build record that has the fields the summary reads (\<^verbatim>\<open>build_num\<close>,
  \<^verbatim>\<open>author_email\<close>, \<^verbatim>\<open>vcs_tag\<close>, \<^verbatim>\<open>queued_at\<close>, \<^verbatim>\<open>why\<close>, \<^verbatim>\<open>build_url\<close>, \<^verbatim>\<open>outcome\<close>; also
  \<^verbatim>\<open>author_name\<close> when the e-mail address is set, and \<^verbatim>\<open>branch\<close> when the tag is not), whose
  author can be formatted and whose time stamp can be parsed.  Then the summary is produced
  (by either loop).  If the value of \<^verbatim>\<open>vcs_tag\<close> is set (true in Python), the summary has the
  field \<^verbatim>\<open>Tag\<close> with that value and no field \<^verbatim>\<open>Branch\<close>.  If it is null or empty, the summary
  has no \<^verbatim>\<open>Tag\<close> and its \<^verbatim>\<open>Branch\<close> is the record's branch, or the string \<^verbatim>\<open>Unknown\<close> when
  the branch is null or empty too.  (Both field names are padded to seven characters.)
\<close>

theorem summary_tag_or_branch:
  assumes "summary = project_builds_summary rt \<or> summary = recent_builds_summary rt"
    and "getitem build ''build_num'' = Inr build_num"
    and "getitem build ''author_email'' = Inr email"
    and "truthy email \<longrightarrow> getitem build ''author_name'' = Inr name
           \<and> format_field rt name = Inr n \<and> format_field rt email = Inr e"
    and "getitem build ''vcs_tag'' = Inr tag"
    and "\<not> truthy tag \<longrightarrow> getitem build ''branch'' = Inr branch"
    and "getitem build ''queued_at'' = Inr queued_at"
    and "local_strftime rt queued_at = Inr queued"
    and "getitem build ''why'' = Inr why"
    and "getitem build ''build_url'' = Inr url"
    and "getitem build ''outcome'' = Inr outcome"
  shows "\<exists>o'. summary build = Inr o'
      \<and> (truthy tag \<longrightarrow> map_of o' ''Tag    '' = Some tag \<and> map_of o' ''Branch '' = None)
      \<and> (\<not> truthy tag \<longrightarrow> map_of o' ''Tag    '' = None
            \<and> map_of o' ''Branch '' = Some (if truthy branch then branch else PStr ''Unknown''))"
proof -
  from assms(1) have "summary build = project_builds_summary rt build"
    by (auto simp: recent_builds_summary_eq)
  with project_builds_summary_value [OF assms(2-11)] show ?thesis
    by simp
qed

theorem summary_tag_or_branch_witness:
  "project_builds_summary example_runtime example_build_1 = Inr example_summary_1
   \<and> getitem example_build_1 ''vcs_tag'' = Inr PNone
   \<and> getitem example_build_1 ''branch'' = Inr PNone
   \<and> map_of example_summary_1 ''Tag    '' = None
   \<and> map_of example_summary_1 ''Branch '' = Some (PStr ''Unknown'')
   \<and> project_builds_summary example_runtime example_build_2 = Inr example_summary_2
   \<and> getitem example_build_2 ''vcs_tag'' = Inr (PStr ''v1.0'')
   \<and> map_of example_summary_2 ''Tag    '' = Some (PStr ''v1.0'')
   \<and> map_of example_summary_2 ''Branch '' = None"
proof -
  from summary_tag_or_branch [OF disjI1 [OF refl] example_build_1_fields]
  obtain o1 where "project_builds_summary example_runtime example_build_1 = Inr o1"
    and "map_of o1 ''Tag    '' = None \<and> map_of o1 ''Branch '' = Some (PStr ''Unknown'')"
    by auto
  with summary_of_example_1
  have r1: "map_of example_summary_1 ''Tag    '' = None
            \<and> map_of example_summary_1 ''Branch '' = Some (PStr ''Unknown'')"
    by simp
  from summary_tag_or_branch [OF disjI1 [OF refl] example_build_2_fields]
  obtain o2 where "project_builds_summary example_runtime example_build_2 = Inr o2"
    and "map_of o2 ''Tag    '' = Some (PStr ''v1.0'') \<and> map_of o2 ''Branch '' = None"
    by auto
  with summary_of_example_2
  have r2: "map_of example_summary_2 ''Tag    '' = Some (PStr ''v1.0'')
            \<and> map_of example_summary_2 ''Branch '' = None"
    by simp
  from summary_of_example_1 summary_of_example_2 example_build_1_fields(4)
    example_build_1_fields(5) example_build_2_fields(4) r1 r2
  show ?thesis
    by simp
qed

text \<open>
  The claim as stated speaks of every record and of an absent branch.  A record with a null
  tag and no \<^verbatim>\<open>branch\<close> key has no summary with \<^verbatim>\<open>Branch = "Unknown"\<close>: the lookup
  \<^verbatim>\<open>build['branch']\<close> raises.
\<close>

theorem summary_without_branch_key_raises:
  "getitem example_build_no_branch ''vcs_tag'' = Inr PNone
   \<and> getitem example_build_no_branch ''branch'' = Inl (KeyError ''branch'')
   \<and> project_builds_summary example_runtime example_build_no_branch = Inl (KeyError ''branch'')"
  by (simp add: project_builds_summary_def example_build_no_branch_def example_runtime_def
      bind_err_def is_ascii_def)




section \<open>The list of builds\<close>

lemma project_builds_success:
  assumes "status_code (answer (project_builds rt self username project False) t) < 400"
    and "json_body (answer (project_builds rt self username project False) t) = Some (PList builds)"
  shows "fst (project_builds rt self username project False t) =
           reversed_summaries (project_builds_summary rt) builds"
proof -
  have a: "answer (project_builds rt self username project False) t =
           answer (get rt self (''project/'' @ username @ ''/'' @ project) [] []) t"
    by (rule answer_cong) (rule project_builds_snd)
  from assms have "fst (get rt self (''project/'' @ username @ ''/'' @ project) [] [] t) = Inr (PList builds)"
    unfolding a by (rule get_success)
  then show ?thesis
    by (simp add: project_builds_fst bind_err_Inr project_builds_loop_eq reversed_summaries_def
        split: sum.splits)
qed

lemma recent_builds_success:
  assumes "status_code (answer (recent_builds rt self False) t) < 400"
    and "json_body (answer (recent_builds rt self False) t) = Some (PList builds)"
  shows "fst (recent_builds rt self False t) = reversed_summaries (recent_builds_summary rt) builds"
proof -
  have a: "answer (recent_builds rt self False) t = answer (get rt self ''recent-builds'' [] []) t"
    by (rule answer_cong) (rule recent_builds_snd)
  from assms have "fst (get rt self ''recent-builds'' [] [] t) = Inr (PList builds)"
    unfolding a by (rule get_success)
  then show ?thesis
    by (simp add: recent_builds_fst bind_err_Inr recent_builds_loop_eq reversed_summaries_def
        split: sum.splits)
qed

text \<open>
  C4.  For a successful response whose body is a list of builds, the non-verbose result of
  \<^verbatim>\<open>project_builds\<close>, and likewise of \<^verbatim>\<open>recent_builds\<close>, is the reverse of the list of the
  summaries of the builds.  In particular two builds, the older first, come back as the
  summary of the newer followed by the summary of the older.
\<close>

theorem builds_newest_first:
  assumes "(f, summary) \<in> set [(project_builds rt self username project False, project_builds_summary rt),
                                 (recent_builds rt self False, recent_builds_summary rt)]"
    and "status_code (answer f t) < 400"
    and "json_body (answer f t) = Some (PList builds)"
  shows "fst (f t) = reversed_summaries summary builds
       \<and> (\<forall>sums. map_err summary builds = Inr sums \<longrightarrow> fst (f t) = Inr (PList (rev (map PDict sums))))
       \<and> (\<forall>b1 b2 s1 s2. builds = [b1, b2] \<longrightarrow> summary b1 = Inr s1 \<longrightarrow> summary b2 = Inr s2 \<longrightarrow>
             fst (f t) = Inr (PList [PDict s2, PDict s1]))"
proof -
  from assms have r: "fst (f t) = reversed_summaries summary builds"
    using project_builds_success recent_builds_success by auto
  then show ?thesis
    by (simp add: reversed_summaries_def)
qed

theorem builds_newest_first_witness:
  "(project_builds example_runtime (init ''tok'') ''u'' ''p'' False, project_builds_summary example_runtime)
     \<in> set [(project_builds example_runtime (init ''tok'') ''u'' ''p'' False, project_builds_summary example_runtime),
             (recent_builds example_runtime (init ''tok'') False, recent_builds_summary example_runtime)]
   \<and> status_code (answer (project_builds example_runtime (init ''tok'') ''u'' ''p'' False)
        (stub_transport 200 (Some (PList [example_build_1, example_build_2])))) < 400
   \<and> json_body (answer (project_builds example_runtime (init ''tok'') ''u'' ''p'' False)
        (stub_transport 200 (Some (PList [example_build_1, example_build_2]))))
       = Some (PList [example_build_1, example_build_2])
   \<and> project_builds_summary example_runtime example_build_1 = Inr example_summary_1
   \<and> project_builds_summary example_runtime example_build_2 = Inr example_summary_2
   \<and> fst (project_builds example_runtime (init ''tok'') ''u'' ''p'' False
        (stub_transport 200 (Some (PList [example_build_1, example_build_2]))))
       = Inr (PList [PDict example_summary_2, PDict example_summary_1])"
proof -
  have m: "(project_builds example_runtime (init ''tok'') ''u'' ''p'' False, project_builds_summary example_runtime)
     \<in> set [(project_builds example_runtime (init ''tok'') ''u'' ''p'' False, project_builds_summary example_runtime),
             (recent_builds example_runtime (init ''tok'') False, recent_builds_summary example_runtime)]"
    by simp
  have s: "status_code (answer (project_builds example_runtime (init ''tok'') ''u'' ''p'' False)
        (stub_transport 200 (Some (PList [example_build_1, example_build_2])))) < 400"
    by (simp add: stub_answer)
  have b: "json_body (answer (project_builds example_runtime (init ''tok'') ''u'' ''p'' False)
        (stub_transport 200 (Some (PList [example_build_1, example_build_2]))))
       = Some (PList [example_build_1, example_build_2])"
    by (simp add: stub_answer)
  from builds_newest_first [OF m s b] summary_of_example_1 summary_of_example_2
  have "fst (project_builds example_runtime (init ''tok'') ''u'' ''p'' False
        (stub_transport 200 (Some (PList [example_build_1, example_build_2]))))
       = Inr (PList [PDict example_summary_2, PDict example_summary_1])"
    by blast
  with m s b summary_of_example_1 summary_of_example_2 show ?thesis
    by blast
qed

lemma project_builds_loop_same: "project_builds_loop rt builds resp = recent_builds_loop rt builds resp"
  by (induction builds arbitrary: resp) (simp_all add: recent_builds_summary_eq split: sum.splits)

text \<open>
  C10.  \<^verbatim>\<open>project_builds\<close> and \<^verbatim>\<open>recent_builds\<close> reshape in the same way: the summary of a
  build is the same, the loops give the same result, and when the two requests get the same
  successful response the two non-verbose results are equal.  The requests differ in the URL
  only.
\<close>

theorem recent_builds_same_reshaping:
  "project_builds_summary rt build = recent_builds_summary rt build
   \<and> project_builds_loop rt builds resp = recent_builds_loop rt builds resp
   \<and> (answer (project_builds rt self username project False) t = answer (recent_builds rt self False) t
        \<longrightarrow> status_code (answer (recent_builds rt self False) t) < 400
        \<longrightarrow> fst (project_builds rt self username project False t) = fst (recent_builds rt self False t))
   \<and> last_request (project_builds rt self username project False) t =
       (last_request (recent_builds rt self False) t)
         \<lparr>req_url := build_url rt self (''project/'' @ username @ ''/'' @ project) []\<rparr>
   \<and> req_url (last_request (recent_builds rt self False) t) = build_url rt self ''recent-builds'' []"
proof -
  have l: "last_request (project_builds rt self username project False) t =
       (last_request (recent_builds rt self False) t)
         \<lparr>req_url := build_url rt self (''project/'' @ username @ ''/'' @ project) []\<rparr>"
    "req_url (last_request (recent_builds rt self False) t) = build_url rt self ''recent-builds'' []"
    by (simp_all add: last_request_def project_builds_snd recent_builds_snd get_eq)
  have "fst (project_builds rt self username project False t) = fst (recent_builds rt self False t)"
    if same: "answer (project_builds rt self username project False) t = answer (recent_builds rt self False) t"
      and ok: "status_code (answer (recent_builds rt self False) t) < 400"
  proof -
    have p: "answer (project_builds rt self username project False) t =
           answer (get rt self (''project/'' @ username @ ''/'' @ project) [] []) t"
      by (rule answer_cong) (rule project_builds_snd)
    have r: "answer (recent_builds rt self False) t = answer (get rt self ''recent-builds'' [] []) t"
      by (rule answer_cong) (rule recent_builds_snd)
    from same ok p r have
      "fst (get rt self (''project/'' @ username @ ''/'' @ project) [] [] t) = json (answer (recent_builds rt self False) t)"
      "fst (get rt self ''recent-builds'' [] [] t) = json (answer (recent_builds rt self False) t)"
      by (simp_all add: get_fst)
    then show ?thesis
      by (simp add: project_builds_fst recent_builds_fst project_builds_loop_same split: sum.splits)
  qed
  with l show ?thesis
    by (simp add: recent_builds_summary_eq project_builds_loop_same)
qed

theorem recent_builds_same_reshaping_witness:
  "answer (project_builds example_runtime (init ''tok'') ''u'' ''p'' False)
       (stub_transport 200 (Some (PList [example_build_1, example_build_2])))
     = answer (recent_builds example_runtime (init ''tok'') False)
       (stub_transport 200 (Some (PList [example_build_1, example_build_2])))
   \<and> status_code (answer (recent_builds example_runtime (init ''tok'') False)
       (stub_transport 200 (Some (PList [example_build_1, example_build_2])))) < 400
   \<and> fst (project_builds example_runtime (init ''tok'') ''u'' ''p'' False
       (stub_transport 200 (Some (PList [example_build_1, example_build_2]))))
     = fst (recent_builds example_runtime (init ''tok'') False
       (stub_transport 200 (Some (PList [example_build_1, example_build_2]))))"
proof -
  have a: "answer (project_builds example_runtime (init ''tok'') ''u'' ''p'' False)
       (stub_transport 200 (Some (PList [example_build_1, example_build_2])))
     = answer (recent_builds example_runtime (init ''tok'') False)
       (stub_transport 200 (Some (PList [example_build_1, example_build_2])))"
    by (simp add: stub_answer)
  have s: "status_code (answer (recent_builds example_runtime (init ''tok'') False)
       (stub_transport 200 (Some (PList [example_build_1, example_build_2])))) < 400"
    by (simp add: stub_answer)
  from recent_builds_same_reshaping [of example_runtime _ _ _ "init ''tok''" "''u''" "''p''"
      "stub_transport 200 (Some (PList [example_build_1, example_build_2]))"] a s
  show ?thesis
    by blast
qed


section \<open>The list of projects\<close>

text \<open>
  The names of the projects.  \<^verbatim>\<open>str.format\<close> encodes its unicode arguments as ASCII, so the
  names are taken to be ASCII strings, as the names of accounts and repositories are.
\<close>

lemma project_name_strings:
  assumes "getitem j ''username'' = Inr (PStr owner)" and "getitem j ''reponame'' = Inr (PStr project)"
    and "is_ascii owner" and "is_ascii project"
  shows "project_name rt j = Inr (PStr (owner @ ''/'' @ project))"
  using assms by (simp add: project_name_def bind_err_Inr)

lemma project_name_non_ascii:
  assumes "getitem j ''username'' = Inr (PStr owner)" and "getitem j ''reponame'' = Inr reponame"
    and "\<not> is_ascii owner"
  shows "project_name rt j = Inl UnicodeEncodeError"
  using assms by (simp add: project_name_def bind_err_def)

lemma map_err_project_name:
  assumes "list_all2 (\<lambda>j (owner, project). getitem j ''username'' = Inr (PStr owner)
             \<and> getitem j ''reponame'' = Inr (PStr project) \<and> is_ascii owner \<and> is_ascii project) js names"
  shows "map_err (project_name rt) js = Inr (map (\<lambda>(owner, project). PStr (owner @ ''/'' @ project)) names)"
  using assms
proof (induction js names rule: list_all2_induct)
  case Nil
  then show ?case by simp
next
  case (Cons j js name names)
  obtain owner project where name: "name = (owner, project)"
    by (cases name)
  with Cons.hyps have "project_name rt j = Inr (PStr (owner @ ''/'' @ project))"
    by (simp add: project_name_strings)
  with Cons.IH name show ?case by simp
qed

text \<open>
  C9 (amended).  For a successful response whose body is a list of project objects, each with
  a \<^verbatim>\<open>username\<close> and a \<^verbatim>\<open>reponame\<close> that are ASCII strings, the non-verbose \<^verbatim>\<open>projects\<close>
  returns the list of the strings \<^verbatim>\<open>owner/project\<close> in the same order; the response
  \<^verbatim>\<open>[{"username": "a", "reponame": "b"}]\<close> gives \<^verbatim>\<open>["a/b"]\<close>.
\<close>

theorem projects_owner_slash_project:
  assumes "status_code (answer (projects rt self False) t) < 400"
    and "json_body (answer (projects rt self False) t) = Some (PList js)"
    and "list_all2 (\<lambda>j (owner, project). getitem j ''username'' = Inr (PStr owner)
             \<and> getitem j ''reponame'' = Inr (PStr project) \<and> is_ascii owner \<and> is_ascii project) js names"
  shows "fst (projects rt self False t) =
           Inr (PList (map (\<lambda>(owner, project). PStr (owner @ ''/'' @ project)) names))"
proof -
  have a: "answer (projects rt self False) t = answer (get rt self ''projects'' [] []) t"
    by (rule answer_cong) (rule projects_snd)
  from assms(1,2) have "fst (get rt self ''projects'' [] [] t) = Inr (PList js)"
    unfolding a by (rule get_success)
  then show ?thesis
    by (simp add: projects_fst bind_err_Inr map_err_project_name [OF assms(3)])
qed

theorem projects_owner_slash_project_witness:
  "status_code (answer (projects example_runtime (init ''tok'') False)
      (stub_transport 200 (Some (PList [PDict [(''username'', PStr ''a''), (''reponame'', PStr ''b'')]])))) < 400
   \<and> json_body (answer (projects example_runtime (init ''tok'') False)
      (stub_transport 200 (Some (PList [PDict [(''username'', PStr ''a''), (''reponame'', PStr ''b'')]]))))
      = Some (PList [PDict [(''username'', PStr ''a''), (''reponame'', PStr ''b'')]])
   \<and> list_all2 (\<lambda>j (owner, project). getitem j ''username'' = Inr (PStr owner)
             \<and> getitem j ''reponame'' = Inr (PStr project) \<and> is_ascii owner \<and> is_ascii project)
        [PDict [(''username'', PStr ''a''), (''reponame'', PStr ''b'')]] [(''a'', ''b'')]
   \<and> fst (projects example_runtime (init ''tok'') False
      (stub_transport 200 (Some (PList [PDict [(''username'', PStr ''a''), (''reponame'', PStr ''b'')]]))))
      = Inr (PList [PStr ''a/b''])"
proof -
  have s: "status_code (answer (projects example_runtime (init ''tok'') False)
      (stub_transport 200 (Some (PList [PDict [(''username'', PStr ''a''), (''reponame'', PStr ''b'')]])))) < 400"
    by (simp add: stub_answer)
  have b: "json_body (answer (projects example_runtime (init ''tok'') False)
      (stub_transport 200 (Some (PList [PDict [(''username'', PStr ''a''), (''reponame'', PStr ''b'')]]))))
      = Some (PList [PDict [(''username'', PStr ''a''), (''reponame'', PStr ''b'')]])"
    by (simp add: stub_answer)
  have l: "list_all2 (\<lambda>j (owner, project). getitem j ''username'' = Inr (PStr owner)
             \<and> getitem j ''reponame'' = Inr (PStr project) \<and> is_ascii owner \<and> is_ascii project)
        [PDict [(''username'', PStr ''a''), (''reponame'', PStr ''b'')]] [(''a'', ''b'')]"
    by (simp add: is_ascii_def)
  from projects_owner_slash_project [OF s b l]
  have "fst (projects example_runtime (init ''tok'') False
      (stub_transport 200 (Some (PList [PDict [(''username'', PStr ''a''), (''reponame'', PStr ''b'')]]))))
      = Inr (PList [PStr ''a/b''])"
    by simp
  with s b l show ?thesis
    by blast
qed

text \<open>
  The claim as stated speaks of every list of project objects.  For an owner named
  \<^verbatim>\<open>caf\<close> followed by the letter e with an acute accent, \<^verbatim>\<open>str.format\<close> raises
  \<^verbatim>\<open>UnicodeEncodeError\<close> and no list is returned.
\<close>

theorem projects_non_ascii_owner_raises:
  "fst (projects example_runtime (init ''tok'') False
      (stub_transport 200 (Some (PList [PDict [(''username'', PStr [CHR ''c'', CHR ''a'', CHR ''f'', CHR 0xE9]),
                                               (''reponame'', PStr ''b'')]]))))
     = Inl UnicodeEncodeError"
  by (simp add: projects_fst get_eq stub_transport_def json_def bind_err_def project_name_def
      is_ascii_def)

end
